theory Spec2Isabelle
  imports Complex_Main
begin

section \<open>Numbers of the scripts\<close>

text \<open>
  The scripts compute with numpy's float64 scalars under
  \<^verbatim>\<open>warnings.filterwarnings('ignore')\<close>: no arithmetic operation raises, a
  division by zero gives an infinity or NaN, the square root of a negative number gives
  NaN, and every comparison with NaN is false. The embedding keeps these special values
  and takes the finite values as real numbers: in the operations \<open>np_add\<close>,
  \<open>np_mul\<close>, ... of this section rounding, overflow of finite results and the sign of
  zero (a zero is \<open>+0\<close>) are abstracted, so that they give the exact real result. The
  operations \<open>f64_add\<close>, \<open>f64_mul\<close>, ... further below round every result to
  binary64; they are used where a property depends on the rounding.
\<close>

datatype npfloat = Fin real | PInf | NInf | NaN

fun inf_of_sign :: "real \<Rightarrow> npfloat" where
  "inf_of_sign s = (if 0 < s then PInf else if s < 0 then NInf else NaN)"

fun np_neg :: "npfloat \<Rightarrow> npfloat" where
  "np_neg (Fin a) = Fin (- a)"
| "np_neg PInf = NInf"
| "np_neg NInf = PInf"
| "np_neg NaN = NaN"

fun np_add :: "npfloat \<Rightarrow> npfloat \<Rightarrow> npfloat" where
  "np_add (Fin a) (Fin b) = Fin (a + b)"
| "np_add NaN _ = NaN"
| "np_add _ NaN = NaN"
| "np_add PInf NInf = NaN"
| "np_add NInf PInf = NaN"
| "np_add PInf _ = PInf"
| "np_add _ PInf = PInf"
| "np_add NInf _ = NInf"
| "np_add _ NInf = NInf"

definition np_sub :: "npfloat \<Rightarrow> npfloat \<Rightarrow> npfloat" where
  "np_sub x y = np_add x (np_neg y)"

fun np_mul :: "npfloat \<Rightarrow> npfloat \<Rightarrow> npfloat" where
  "np_mul (Fin a) (Fin b) = Fin (a * b)"
| "np_mul NaN _ = NaN"
| "np_mul _ NaN = NaN"
| "np_mul (Fin a) PInf = inf_of_sign a"
| "np_mul (Fin a) NInf = inf_of_sign (- a)"
| "np_mul PInf (Fin b) = inf_of_sign b"
| "np_mul NInf (Fin b) = inf_of_sign (- b)"
| "np_mul PInf PInf = PInf"
| "np_mul PInf NInf = NInf"
| "np_mul NInf PInf = NInf"
| "np_mul NInf NInf = PInf"

fun np_div :: "npfloat \<Rightarrow> npfloat \<Rightarrow> npfloat" where
  "np_div (Fin a) (Fin b) = (if b = 0 then inf_of_sign a else Fin (a / b))"
| "np_div NaN _ = NaN"
| "np_div _ NaN = NaN"
| "np_div (Fin a) _ = Fin 0"
| "np_div PInf (Fin b) = (if b < 0 then NInf else PInf)"
| "np_div NInf (Fin b) = (if b < 0 then PInf else NInf)"
| "np_div _ _ = NaN"

fun np_sqrt :: "npfloat \<Rightarrow> npfloat" where
  "np_sqrt (Fin a) = (if a < 0 then NaN else Fin (sqrt a))"
| "np_sqrt PInf = PInf"
| "np_sqrt NInf = NaN"
| "np_sqrt NaN = NaN"

fun np_abs :: "npfloat \<Rightarrow> npfloat" where
  "np_abs (Fin a) = Fin \<bar>a\<bar>"
| "np_abs PInf = PInf"
| "np_abs NInf = PInf"
| "np_abs NaN = NaN"

fun np_le :: "npfloat \<Rightarrow> npfloat \<Rightarrow> bool" where
  "np_le NaN _ = False"
| "np_le _ NaN = False"
| "np_le NInf _ = True"
| "np_le _ PInf = True"
| "np_le (Fin a) (Fin b) = (a \<le> b)"
| "np_le _ _ = False"

definition np_lt :: "npfloat \<Rightarrow> npfloat \<Rightarrow> bool" where
  "np_lt x y = (np_le x y \<and> x \<noteq> y)"

definition np_ge :: "npfloat \<Rightarrow> npfloat \<Rightarrow> bool" where
  "np_ge x y = np_le y x"

definition np_gt :: "npfloat \<Rightarrow> npfloat \<Rightarrow> bool" where
  "np_gt x y = np_lt y x"

section \<open>The SEF calculator\<close>

text \<open>
  \<^verbatim>\<open>calculate_sef(kappa, rho)\<close> of \<^verbatim>\<open>scripts/validate_sef_framework.py\<close>
  (the copy in \<^verbatim>\<open>scripts/validate_multi_domain_sef.py\<close> is the same text):
  \<^verbatim>\<open>
  if (1 + kappa - 2 * np.sqrt(kappa) * rho) <= 0:
      return np.inf
  return (1 + kappa) / (1 + kappa - 2 * np.sqrt(kappa) * rho)
  \<close>
\<close>

definition sef_denominator :: "npfloat \<Rightarrow> npfloat \<Rightarrow> npfloat" where
  "sef_denominator kappa rho =
     np_sub (np_add (Fin 1) kappa) (np_mul (np_mul (Fin 2) (np_sqrt kappa)) rho)"

definition calculate_sef :: "npfloat \<Rightarrow> npfloat \<Rightarrow> npfloat" where
  "calculate_sef kappa rho =
     (if np_le (sef_denominator kappa rho) (Fin 0) then PInf
      else np_div (np_add (Fin 1) kappa) (sef_denominator kappa rho))"

section \<open>Tables and series\<close>

text \<open>
  A pandas DataFrame is a map from column names to columns of equal length; a cell is a
  number, a text or missing (NaN/None). \<^verbatim>\<open>df[col]\<close> raises \<^verbatim>\<open>KeyError\<close> (the
  spec's MissingColumnError) when the column does not exist. A reduction such as
  \<^verbatim>\<open>mean()\<close> over cells that hold text raises \<^verbatim>\<open>TypeError\<close>.
\<close>

datatype cell = Num real | Str string | NA

type_synonym dataframe = "string \<rightharpoonup> cell list"

datatype error = KeyError string | TypeError

definition getitem :: "dataframe \<Rightarrow> string \<Rightarrow> error + cell list" where
  "getitem df col = (case df col of None \<Rightarrow> Inl (KeyError col) | Some xs \<Rightarrow> Inr xs)"

text \<open>Elementwise \<^verbatim>\<open>==\<close>: a missing cell equals nothing, not even a missing value.\<close>

definition cell_eq :: "cell \<Rightarrow> cell \<Rightarrow> bool" where
  "cell_eq c v = (c \<noteq> NA \<and> c = v)"

definition select_rows :: "bool list \<Rightarrow> cell list \<Rightarrow> cell list" where
  "select_rows keep col = map snd (filter fst (zip keep col))"

definition dropna :: "cell list \<Rightarrow> cell list" where
  "dropna col = filter (\<lambda>c. c \<noteq> NA) col"

text \<open>
  \<^verbatim>\<open>df[df[class_a_col] == value][measurement_col].dropna()\<close>: the grouping column is
  read first, then the measurement column of the selected rows.
\<close>

definition separate_class :: "dataframe \<Rightarrow> string \<Rightarrow> cell \<Rightarrow> string \<Rightarrow> error + cell list" where
  "separate_class df class_col class_value measurement_col =
     (case getitem df class_col of
        Inl e \<Rightarrow> Inl e
      | Inr labels \<Rightarrow>
          (case getitem df measurement_col of
             Inl e \<Rightarrow> Inl e
           | Inr ms \<Rightarrow> Inr (dropna (select_rows (map (\<lambda>c. cell_eq c class_value) labels) ms))))"

fun numeric :: "cell list \<Rightarrow> error + real list" where
  "numeric [] = Inr []"
| "numeric (Num x # cs) = (case numeric cs of Inl e \<Rightarrow> Inl e | Inr xs \<Rightarrow> Inr (x # xs))"
| "numeric (_ # cs) = Inl TypeError"

text \<open>
  The sample mean and the unbiased sample variance (denominator \<open>n - 1\<close>) over the reals,
  and pandas' \<^verbatim>\<open>Series.mean()\<close> and \<^verbatim>\<open>Series.var()\<close>, which are NaN on
  a series too short for them.
\<close>

definition sample_mean :: "real list \<Rightarrow> real" where
  "sample_mean xs = sum_list xs / real (length xs)"

definition sample_var :: "real list \<Rightarrow> real" where
  "sample_var xs =
     sum_list (map (\<lambda>x. (x - sample_mean xs)\<^sup>2) xs) / (real (length xs) - 1)"

definition series_mean :: "real list \<Rightarrow> npfloat" where
  "series_mean xs = (if xs = [] then NaN else Fin (sample_mean xs))"

definition series_var :: "real list \<Rightarrow> npfloat" where
  "series_var xs = (if length xs < 2 then NaN else Fin (sample_var xs))"

section \<open>The parameter estimator and the validation of a dataset\<close>

text \<open>
  \<^verbatim>\<open>validate_sef_framework\<close> of \<^verbatim>\<open>scripts/validate_sef_framework.py\<close>. The two
  parameters of lines 77 and 78,
  \<^verbatim>\<open>
  kappa = var_b / var_a  # Variance ratio
  delta = abs(mean_a - mean_b) / std_a  # Signal separation
  \<close>
  are named after their comments.
\<close>

definition variance_ratio :: "real list \<Rightarrow> real list \<Rightarrow> npfloat" where
  "variance_ratio class_a class_b = np_div (series_var class_b) (series_var class_a)"

definition signal_separation :: "real list \<Rightarrow> real list \<Rightarrow> npfloat" where
  "signal_separation class_a class_b =
     np_div (np_abs (np_sub (series_mean class_a) (series_mean class_b)))
       (np_sqrt (series_var class_a))"

record sef_result =
  r_sef :: npfloat
  r_kappa :: npfloat
  r_rho :: npfloat
  r_delta :: npfloat
  r_improvement_percent :: npfloat
  r_applicability_score :: nat
  r_max_score :: nat
  r_cohens_d :: npfloat
  r_normality_a :: npfloat
  r_normality_b :: npfloat
  r_sample_size_a :: nat
  r_sample_size_b :: nat

text \<open>
  Lines 64 to 207, on the two numeric series. The returned dict is the record
  \<open>sef_result\<close>, a field \<open>r_k\<close> for the key \<^verbatim>\<open>'k'\<close>. The p-values of scipy's
  \<^verbatim>\<open>shapiro\<close> and \<^verbatim>\<open>kstest(., 'norm')\<close> are parameters. The printed
  report is not modelled.
\<close>

definition sef_analysis ::
  "(real list \<Rightarrow> npfloat) \<Rightarrow> (real list \<Rightarrow> npfloat) \<Rightarrow> real list \<Rightarrow> real list \<Rightarrow> sef_result" where
  "sef_analysis shapiro_p kstest_p class_a class_b =
     (let mean_a = series_mean class_a;
          mean_b = series_mean class_b;
          var_a = series_var class_a;
          var_b = series_var class_b;
          kappa = variance_ratio class_a class_b;
          delta = signal_separation class_a class_b;
          estimated_rho = Fin (2 / 10);
          sef = calculate_sef kappa estimated_rho;
          improvement_percent = np_mul (np_sub sef (Fin 1)) (Fin 100);
          p_a = (if length class_a \<le> 5000 then shapiro_p class_a else kstest_p class_a);
          p_b = (if length class_b \<le> 5000 then shapiro_p class_b else kstest_p class_b);
          pooled_std = np_sqrt (np_div
            (np_add (np_mul (Fin (real (length class_a) - 1)) var_a)
                    (np_mul (Fin (real (length class_b) - 1)) var_b))
            (Fin (real (length class_a) + real (length class_b) - 2)));
          cohens_d = np_div (np_abs (np_sub mean_a mean_b)) pooled_std;
          score1 = (if 20 \<le> length class_a \<and> 20 \<le> length class_b then 1 else 0);
          score2 = (if np_le (Fin (5 / 10)) kappa \<and> np_le kappa (Fin 5) then 1 else 0);
          score3 = (if np_gt delta (Fin (1 / 10)) then 1 else 0);
          score4 = (if np_gt p_a (Fin (5 / 100)) \<and> np_gt p_b (Fin (5 / 100)) then 1 else 0);
          score5 = (if np_gt cohens_d (Fin (2 / 10)) then 1 else 0)
      in \<lparr>r_sef = sef, r_kappa = kappa, r_rho = estimated_rho, r_delta = delta,
          r_improvement_percent = improvement_percent,
          r_applicability_score = score1 + score2 + score3 + score4 + score5,
          r_max_score = 5, r_cohens_d = cohens_d,
          r_normality_a = p_a, r_normality_b = p_b,
          r_sample_size_a = length class_a, r_sample_size_b = length class_b\<rparr>)"

text \<open>
  The whole function: the two classes are separated (lines 54, 55), fewer than 10 samples
  in either class prints a message and returns \<^verbatim>\<open>None\<close> (lines 60 to 62), and the
  analysis follows.
\<close>

definition validate_sef_framework ::
  "(real list \<Rightarrow> npfloat) \<Rightarrow> (real list \<Rightarrow> npfloat) \<Rightarrow>
   dataframe \<Rightarrow> string \<Rightarrow> cell \<Rightarrow> cell \<Rightarrow> string \<Rightarrow> error + sef_result option" where
  "validate_sef_framework shapiro_p kstest_p df class_a_col class_a_value class_b_value
       measurement_col =
     (case separate_class df class_a_col class_a_value measurement_col of
        Inl e \<Rightarrow> Inl e
      | Inr class_a \<Rightarrow>
     (case separate_class df class_a_col class_b_value measurement_col of
        Inl e \<Rightarrow> Inl e
      | Inr class_b \<Rightarrow>
     (if length class_a < 10 \<or> length class_b < 10 then Inr None
      else
     (case numeric class_a of
        Inl e \<Rightarrow> Inl e
      | Inr a \<Rightarrow>
     (case numeric class_b of
        Inl e \<Rightarrow> Inl e
      | Inr b \<Rightarrow> Inr (Some (sef_analysis shapiro_p kstest_p a b)))))))"

section \<open>The normality checker\<close>

text \<open>
  \<^verbatim>\<open>test_normality(data)\<close> of \<^verbatim>\<open>validate_clinical_data.py\<close>. The keys of the
  returned dict are \<^verbatim>\<open>'Shapiro-Wilk'\<close>, \<^verbatim>\<open>"D'Agostino K2"\<close> (with a superscript
  two) and \<^verbatim>\<open>'Jarque-Bera'\<close>; scipy's \<^verbatim>\<open>shapiro\<close>, \<^verbatim>\<open>normaltest\<close> and
  \<^verbatim>\<open>jarque_bera\<close>, each returning a statistic and a p-value, are parameters.
\<close>

datatype test_name = Shapiro_Wilk | DAgostino_K2 | Jarque_Bera

record test_result =
  statistic :: npfloat
  p_value :: npfloat

definition test_normality ::
  "(real list \<Rightarrow> npfloat \<times> npfloat) \<Rightarrow> (real list \<Rightarrow> npfloat \<times> npfloat) \<Rightarrow>
   (real list \<Rightarrow> npfloat \<times> npfloat) \<Rightarrow> real list \<Rightarrow> (test_name \<rightharpoonup> test_result)" where
  "test_normality shapiro normaltest jarque_bera data =
     (let results = Map.empty;
          results = (if 3 \<le> length data \<and> length data \<le> 5000
                     then results(Shapiro_Wilk \<mapsto>
                       \<lparr>statistic = fst (shapiro data), p_value = snd (shapiro data)\<rparr>)
                     else results);
          results = (if 8 \<le> length data
                     then results(DAgostino_K2 \<mapsto>
                       \<lparr>statistic = fst (normaltest data), p_value = snd (normaltest data)\<rparr>)
                     else results);
          results = (if 8 \<le> length data
                     then results(Jarque_Bera \<mapsto>
                       \<lparr>statistic = fst (jarque_bera data), p_value = snd (jarque_bera data)\<rparr>)
                     else results)
      in results)"

section \<open>The SNR formulation of the CMS script\<close>

text \<open>
  \<^verbatim>\<open>calculate_sef_improvement(params)\<close> of \<^verbatim>\<open>scripts/apply_sef_to_cms_data.py\<close>.
  \<open>params\<close> is the dict that \<^verbatim>\<open>calculate_sef_parameters\<close> returns, a field
  \<open>p_k\<close> for the key \<^verbatim>\<open>'k'\<close>; in the returned dict the keys \<^verbatim>\<open>'sef'\<close> and
  \<^verbatim>\<open>'improvement_percent'\<close> are the fields \<open>i_sef\<close> and
  \<open>i_improvement_percent\<close>. \<^verbatim>\<open>x ** 2\<close> is \<open>x * x\<close>. This is the function
  in exact arithmetic; \<open>calculate_sef_improvement_f64\<close> below is the function with
  every operation rounded to binary64.
\<close>

record sef_params =
  p_delta :: npfloat
  p_kappa :: npfloat
  p_rho :: npfloat
  p_mayo_mean :: npfloat
  p_mayo_std :: npfloat
  p_cleveland_mean :: npfloat
  p_cleveland_std :: npfloat
  p_mayo_log :: bool
  p_cleveland_log :: bool

record sef_improvement =
  snr_independent :: npfloat
  snr_relative :: npfloat
  i_sef :: npfloat
  i_improvement_percent :: npfloat

definition calculate_sef_improvement :: "sef_params \<Rightarrow> sef_improvement" where
  "calculate_sef_improvement params =
     (let delta = p_delta params;
          rho = p_rho params;
          mayo_var = np_mul (p_mayo_std params) (p_mayo_std params);
          cleveland_var = np_mul (p_cleveland_std params) (p_cleveland_std params);
          snr_ind = np_div (np_mul delta delta) (np_add mayo_var cleveland_var);
          relative_var = np_sub (np_add mayo_var cleveland_var)
            (np_mul (np_mul (np_mul (Fin 2) rho) (p_mayo_std params)) (p_cleveland_std params));
          snr_rel = (if np_gt relative_var (Fin 0)
                     then np_div (np_mul delta delta) relative_var else PInf);
          sef = (if np_gt snr_ind (Fin 0) then np_div snr_rel snr_ind else PInf)
      in \<lparr>snr_independent = snr_ind, snr_relative = snr_rel, i_sef = sef,
          i_improvement_percent = np_mul (np_sub sef (Fin 1)) (Fin 100)\<rparr>)"

section \<open>Rounding to binary64\<close>

text \<open>
  An operation of IEEE 754 binary64 returns the exact result rounded to the nearest
  representable number, ties to the even significand. A number of binade \<open>e\<close>
  (\<open>2 ^ e \<le> |x| < 2 ^ (e + 1)\<close>, and \<open>e = -1022\<close> throughout the subnormal range) is a
  multiple of \<open>2 ^ (e - 52)\<close>; a result that rounds to \<open>2 ^ 1024\<close> or beyond is an
  infinity, and a result that rounds to \<open>0\<close> has underflowed.
\<close>

definition round_half_even :: "real \<Rightarrow> int" where
  "round_half_even r =
     (let f = \<lfloor>r\<rfloor> in
      if r - of_int f < 1 / 2 then f
      else if 1 / 2 < r - of_int f then f + 1
      else if even f then f else f + 1)"

definition binade :: "real \<Rightarrow> int" where
  "binade x = max \<lfloor>log 2 \<bar>x\<bar>\<rfloor> (- 1022)"

definition ulp :: "real \<Rightarrow> real" where
  "ulp x = 2 powi (binade x - 52)"

definition fl :: "real \<Rightarrow> npfloat" where
  "fl x =
     (if x = 0 then Fin 0
      else let y = of_int (round_half_even (x / ulp x)) * ulp x
           in if 2 ^ 1024 \<le> \<bar>y\<bar> then inf_of_sign x else Fin y)"

fun f64 :: "npfloat \<Rightarrow> npfloat" where
  "f64 (Fin x) = fl x"
| "f64 PInf = PInf"
| "f64 NInf = NInf"
| "f64 NaN = NaN"

definition f64_add :: "npfloat \<Rightarrow> npfloat \<Rightarrow> npfloat" where
  "f64_add x y = f64 (np_add x y)"

definition f64_sub :: "npfloat \<Rightarrow> npfloat \<Rightarrow> npfloat" where
  "f64_sub x y = f64 (np_sub x y)"

definition f64_mul :: "npfloat \<Rightarrow> npfloat \<Rightarrow> npfloat" where
  "f64_mul x y = f64 (np_mul x y)"

definition f64_div :: "npfloat \<Rightarrow> npfloat \<Rightarrow> npfloat" where
  "f64_div x y = f64 (np_div x y)"

definition f64_sqrt :: "npfloat \<Rightarrow> npfloat" where
  "f64_sqrt x = f64 (np_sqrt x)"

text \<open>
  \<^verbatim>\<open>calculate_sef\<close> and \<^verbatim>\<open>calculate_sef_improvement\<close> once more, line by line as
  above, with every arithmetic operation rounded. Comparisons are exact, and
  \<^verbatim>\<open>x ** 2\<close> is taken as the correctly rounded square of \<open>x\<close> (on the inputs
  used below the square is exact or underflows).
\<close>

definition sef_denominator_f64 :: "npfloat \<Rightarrow> npfloat \<Rightarrow> npfloat" where
  "sef_denominator_f64 kappa rho =
     f64_sub (f64_add (Fin 1) kappa) (f64_mul (f64_mul (Fin 2) (f64_sqrt kappa)) rho)"

definition calculate_sef_f64 :: "npfloat \<Rightarrow> npfloat \<Rightarrow> npfloat" where
  "calculate_sef_f64 kappa rho =
     (if np_le (sef_denominator_f64 kappa rho) (Fin 0) then PInf
      else f64_div (f64_add (Fin 1) kappa) (sef_denominator_f64 kappa rho))"

definition calculate_sef_improvement_f64 :: "sef_params \<Rightarrow> sef_improvement" where
  "calculate_sef_improvement_f64 params =
     (let delta = p_delta params;
          rho = p_rho params;
          mayo_var = f64_mul (p_mayo_std params) (p_mayo_std params);
          cleveland_var = f64_mul (p_cleveland_std params) (p_cleveland_std params);
          snr_ind = f64_div (f64_mul delta delta) (f64_add mayo_var cleveland_var);
          relative_var = f64_sub (f64_add mayo_var cleveland_var)
            (f64_mul (f64_mul (f64_mul (Fin 2) rho) (p_mayo_std params))
               (p_cleveland_std params));
          snr_rel = (if np_gt relative_var (Fin 0)
                     then f64_div (f64_mul delta delta) relative_var else PInf);
          sef = (if np_gt snr_ind (Fin 0) then f64_div snr_rel snr_ind else PInf)
      in \<lparr>snr_independent = snr_ind, snr_relative = snr_rel, i_sef = sef,
          i_improvement_percent = f64_mul (f64_sub sef (Fin 1)) (Fin 100)\<rparr>)"

section \<open>Example tables\<close>

text \<open>The scenario of the specification: Group A of 5 and Group B of 3 observations.\<close>

definition scenario_table :: dataframe where
  "scenario_table =
     [''group'' \<mapsto> [Str ''A'', Str ''A'', Str ''A'', Str ''A'', Str ''A'',
                    Str ''B'', Str ''B'', Str ''B''],
      ''value'' \<mapsto> [Num 10, Num 12, Num 14, Num 16, Num 18, Num 5, Num 25, Num 45]]"

text \<open>
  Ten observations per class; class GPU has mean \<open>0\<close> and variance \<open>4\<close>, class TPU has
  mean \<open>10\<close> and variance \<open>4\<close>.
\<close>

definition gpu_scores :: "real list" where
  "gpu_scores = [3, - 3, 3, - 3, 0, 0, 0, 0, 0, 0]"

definition tpu_scores :: "real list" where
  "tpu_scores = [13, 7, 13, 7, 10, 10, 10, 10, 10, 10]"

definition separated_table :: dataframe where
  "separated_table =
     [''hardware_type'' \<mapsto> replicate 10 (Str ''GPU'') @ replicate 10 (Str ''TPU''),
      ''accuracy'' \<mapsto> map Num gpu_scores @ map Num tpu_scores]"

text \<open>
  Ten observations per class; class GPU is constant (variance \<open>0\<close>), class TPU has mean
  \<open>10\<close> and variance \<open>8\<close>.
\<close>

definition constant_scores :: "real list" where
  "constant_scores = [5, 5, 5, 5, 5, 5, 5, 5, 5, 5]"

definition spread_scores :: "real list" where
  "spread_scores = [16, 4, 10, 10, 10, 10, 10, 10, 10, 10]"

definition degenerate_table :: dataframe where
  "degenerate_table =
     [''hardware_type'' \<mapsto> replicate 10 (Str ''GPU'') @ replicate 10 (Str ''TPU''),
      ''accuracy'' \<mapsto> map Num constant_scores @ map Num spread_scores]"

text \<open>The dict of \<^verbatim>\<open>calculate_sef_parameters\<close> for standard deviations \<open>1\<close> and \<open>2\<close>.\<close>

definition example_params :: sef_params where
  "example_params =
     \<lparr>p_delta = Fin 3, p_kappa = Fin 4, p_rho = Fin (1 / 2),
      p_mayo_mean = Fin 10, p_mayo_std = Fin 1,
      p_cleveland_mean = Fin 7, p_cleveland_std = Fin 2,
      p_mayo_log = False, p_cleveland_log = False\<rparr>"

text \<open>The same dict with the tiny signal separation \<open>2 ^ -600\<close>.\<close>

definition tiny_delta_params :: sef_params where
  "tiny_delta_params = example_params\<lparr>p_delta := Fin (1 / 2 ^ 600)\<rparr>"

section \<open>Properties of the SEF calculator\<close>

lemma sef_denominator_Fin:
  "0 \<le> k \<Longrightarrow> sef_denominator (Fin k) (Fin r) = Fin (1 + k - 2 * sqrt k * r)"
  by (simp add: sef_denominator_def np_sub_def)

lemma calculate_sef_Fin:
  "0 \<le> k \<Longrightarrow> calculate_sef (Fin k) (Fin r) =
     (if 1 + k - 2 * sqrt k * r \<le> 0 then PInf
      else Fin ((1 + k) / (1 + k - 2 * sqrt k * r)))"
  by (simp add: calculate_sef_def sef_denominator_Fin)

text \<open>
  C1. For every \<open>kappa > 0\<close> and \<open>rho\<close> in \<open>[-1, 1]\<close> the calculator computes the
  denominator \<open>1 + kappa - 2 * sqrt kappa * rho\<close>, returns \<open>+infinity\<close> when it is
  \<open>\<le> 0\<close> and \<open>(1 + kappa) / denominator\<close> otherwise; the result is a function of
  \<open>(kappa, rho)\<close> alone and is never negative.
\<close>

theorem calculate_sef_closed_form:
  assumes "0 < kappa" and "- 1 \<le> rho" and "rho \<le> 1"
  shows "sef_denominator (Fin kappa) (Fin rho) = Fin (1 + kappa - 2 * sqrt kappa * rho)
    \<and> calculate_sef (Fin kappa) (Fin rho) =
        (if 1 + kappa - 2 * sqrt kappa * rho \<le> 0 then PInf
         else Fin ((1 + kappa) / (1 + kappa - 2 * sqrt kappa * rho)))
    \<and> np_le (Fin 0) (calculate_sef (Fin kappa) (Fin rho))"
proof -
  have k: "0 \<le> kappa" using assms(1) by simp
  have nonneg: "np_le (Fin 0) (calculate_sef (Fin kappa) (Fin rho))"
  proof (cases "1 + kappa - 2 * sqrt kappa * rho \<le> 0")
    case True
    then show ?thesis by (simp add: calculate_sef_Fin [OF k])
  next
    case False
    then have "0 \<le> (1 + kappa) / (1 + kappa - 2 * sqrt kappa * rho)"
      using assms(1) by simp
    with False show ?thesis by (simp add: calculate_sef_Fin [OF k])
  qed
  show ?thesis
    using sef_denominator_Fin [OF k] calculate_sef_Fin [OF k] nonneg by simp
qed

theorem calculate_sef_closed_form_witness:
  "calculate_sef (Fin 4) (Fin (1 / 2)) = Fin (5 / 3)
   \<and> calculate_sef (Fin 1) (Fin 1) = PInf"
  using calculate_sef_closed_form [of 4 "1 / 2"] calculate_sef_closed_form [of 1 1]
  by simp

text \<open>
  C2 (as stated: with \<open>rho = 0\<close> the calculator returns \<open>1 + kappa\<close>). The
  statement fails: at \<open>kappa = 1\<close>, \<open>rho = 0\<close> the denominator is \<open>2\<close> and the
  calculator returns \<open>2 / 2 = 1\<close>, not \<open>2\<close>.
\<close>

theorem calculate_sef_rho_zero_counterexample:
  "calculate_sef (Fin 1) (Fin 0) = Fin 1 \<and> calculate_sef (Fin 1) (Fin 0) \<noteq> Fin (1 + 1)"
  by (simp add: calculate_sef_Fin)

text \<open>
  C2 (amended). For every \<open>kappa > 0\<close> the calculator applied to \<open>rho = 0\<close> returns
  exactly \<open>1\<close>: the subtracted term vanishes and numerator and denominator are both
  \<open>1 + kappa\<close>.
\<close>

theorem calculate_sef_rho_zero:
  assumes "0 < kappa"
  shows "calculate_sef (Fin kappa) (Fin 0) = Fin 1"
proof -
  have "0 \<le> kappa" and "\<not> 1 + kappa \<le> 0" and "1 + kappa \<noteq> 0"
    using assms by simp_all
  then show ?thesis by (simp add: calculate_sef_Fin)
qed

theorem calculate_sef_rho_zero_witness:
  "calculate_sef (Fin 7) (Fin 0) = Fin 1"
  using calculate_sef_rho_zero [of 7] by simp

text \<open>
  C5 (as stated: for \<open>kappa \<le> 0\<close> the calculator raises or returns an explicit error and
  never silently computes a NaN). The function has no check of \<open>kappa\<close>: at
  \<open>kappa = -1\<close> the square root is NaN, the comparison with \<open>0\<close> is false and the
  division returns NaN; at \<open>kappa = 0\<close> it returns \<open>1\<close>.
\<close>

theorem calculate_sef_nonpositive_kappa_counterexample:
  "calculate_sef (Fin (- 1)) (Fin 0) = NaN \<and> calculate_sef (Fin 0) (Fin 0) = Fin 1"
  by (simp add: calculate_sef_def sef_denominator_def np_sub_def)

text \<open>
  C5 (amended). For every \<open>kappa \<le> 0\<close> and finite \<open>rho\<close> the calculator signals no
  error: it returns \<open>1\<close> when \<open>kappa = 0\<close> and NaN when \<open>kappa < 0\<close>.
\<close>

theorem calculate_sef_nonpositive_kappa:
  assumes "kappa \<le> 0"
  shows "calculate_sef (Fin kappa) (Fin rho) = (if kappa = 0 then Fin 1 else NaN)"
proof (cases "kappa = 0")
  case True
  then show ?thesis by (simp add: calculate_sef_Fin)
next
  case False
  with assms have neg: "kappa < 0" by simp
  then have "sef_denominator (Fin kappa) (Fin rho) = NaN"
    by (simp add: sef_denominator_def np_sub_def)
  with False show ?thesis by (simp add: calculate_sef_def)
qed

theorem calculate_sef_nonpositive_kappa_witness:
  "calculate_sef (Fin (- 4)) (Fin (1 / 2)) = NaN \<and> calculate_sef (Fin 0) (Fin (1 / 2)) = Fin 1"
  using calculate_sef_nonpositive_kappa [of "- 4" "1 / 2"]
    calculate_sef_nonpositive_kappa [of 0 "1 / 2"]
  by simp

text \<open>
  C9. For every \<open>kappa > 0\<close> and \<open>rho \<ge> 0\<close> with
  \<open>1 + kappa - 2 * sqrt kappa * rho > 0\<close> the calculator's result is at least \<open>1\<close>.
\<close>

theorem calculate_sef_ge_one:
  assumes "0 < kappa" and "0 \<le> rho" and "0 < 1 + kappa - 2 * sqrt kappa * rho"
  shows "\<exists>s. calculate_sef (Fin kappa) (Fin rho) = Fin s \<and> 1 \<le> s"
proof -
  let ?d = "1 + kappa - 2 * sqrt kappa * rho"
  have k: "0 \<le> kappa" using assms(1) by simp
  have "0 \<le> 2 * sqrt kappa * rho" using k assms(2) by simp
  then have "?d \<le> 1 + kappa" by simp
  then have "1 \<le> (1 + kappa) / ?d"
    using assms(3) by (simp add: le_divide_eq)
  moreover have "calculate_sef (Fin kappa) (Fin rho) = Fin ((1 + kappa) / ?d)"
    using assms(3) by (simp add: calculate_sef_Fin [OF k])
  ultimately show ?thesis by blast
qed

theorem calculate_sef_ge_one_witness:
  "(0::real) < 1 + 4 - 2 * sqrt 4 * (1 / 4)
   \<and> (\<exists>s. calculate_sef (Fin 4) (Fin (1 / 4)) = Fin s \<and> 1 \<le> s)"
  using calculate_sef_ge_one [of 4 "1 / 4"] by simp

section \<open>Properties of the parameter estimator\<close>

lemma numeric_map_Num: "numeric (map Num xs) = Inr xs"
  by (induction xs) simp_all

lemma validate_numeric:
  assumes "separate_class df c va m = Inr (map Num a)"
    and "separate_class df c vb m = Inr (map Num b)"
  shows "validate_sef_framework sh ks df c va vb m =
     (if length a < 10 \<or> length b < 10 then Inr None
      else Inr (Some (sef_analysis sh ks a b)))"
  using assms by (simp add: validate_sef_framework_def numeric_map_Num)

lemma r_delta_analysis: "r_delta (sef_analysis sh ks a b) = signal_separation a b"
  by (simp add: sef_analysis_def Let_def)

lemma r_kappa_analysis: "r_kappa (sef_analysis sh ks a b) = variance_ratio a b"
  by (simp add: sef_analysis_def Let_def)

lemma r_sef_analysis:
  "r_sef (sef_analysis sh ks a b) = calculate_sef (variance_ratio a b) (Fin (2 / 10))"
  by (simp add: sef_analysis_def Let_def)

lemma sample_var_nonneg: "2 \<le> length xs \<Longrightarrow> 0 \<le> sample_var xs"
  unfolding sample_var_def
  by (intro divide_nonneg_nonneg sum_list_nonneg) auto

lemma calculate_sef_PInf: "0 < r \<Longrightarrow> calculate_sef PInf (Fin r) = NaN"
  by (simp add: calculate_sef_def sef_denominator_def np_sub_def)

lemma calculate_sef_NaN: "calculate_sef NaN rho = NaN"
  by (simp add: calculate_sef_def sef_denominator_def np_sub_def)

lemma signal_separation_Fin:
  assumes "2 \<le> length a" and "b \<noteq> []" and "0 < sample_var a"
  shows "signal_separation a b =
    Fin (\<bar>sample_mean a - sample_mean b\<bar> / sqrt (sample_var a))"
proof -
  have "a \<noteq> []" using assms(1) by auto
  moreover have "\<not> length a < 2" using assms(1) by simp
  moreover have "sqrt (sample_var a) \<noteq> 0" using assms(3) by simp
  ultimately show ?thesis
    using assms(2,3)
    by (simp add: signal_separation_def series_mean_def series_var_def np_sub_def)
qed

lemma variance_ratio_zero:
  assumes "2 \<le> length a" and "2 \<le> length b" and "sample_var a = 0"
  shows "variance_ratio a b = (if 0 < sample_var b then PInf else NaN)"
proof -
  have "0 \<le> sample_var b" using assms(2) by (rule sample_var_nonneg)
  moreover have "\<not> length a < 2" and "\<not> length b < 2" using assms(1,2) by simp_all
  ultimately show ?thesis
    using assms(3) by (auto simp add: variance_ratio_def series_var_def)
qed

lemma separate_scenario_A:
  "separate_class scenario_table ''group'' (Str ''A'') ''value'' =
     Inr (map Num [10, 12, 14, 16, 18])"
  by (simp add: scenario_table_def separate_class_def getitem_def select_rows_def
      dropna_def cell_eq_def)

lemma separate_scenario_B:
  "separate_class scenario_table ''group'' (Str ''B'') ''value'' = Inr (map Num [5, 25, 45])"
  by (simp add: scenario_table_def separate_class_def getitem_def select_rows_def
      dropna_def cell_eq_def)

lemma separate_separated_GPU:
  "separate_class separated_table ''hardware_type'' (Str ''GPU'') ''accuracy'' =
     Inr (map Num gpu_scores)"
  by (simp add: separated_table_def gpu_scores_def tpu_scores_def separate_class_def
      getitem_def select_rows_def dropna_def cell_eq_def numeral_eq_Suc)

lemma separate_separated_TPU:
  "separate_class separated_table ''hardware_type'' (Str ''TPU'') ''accuracy'' =
     Inr (map Num tpu_scores)"
  by (simp add: separated_table_def gpu_scores_def tpu_scores_def separate_class_def
      getitem_def select_rows_def dropna_def cell_eq_def numeral_eq_Suc)

lemma separate_degenerate_GPU:
  "separate_class degenerate_table ''hardware_type'' (Str ''GPU'') ''accuracy'' =
     Inr (map Num constant_scores)"
  by (simp add: degenerate_table_def constant_scores_def spread_scores_def separate_class_def
      getitem_def select_rows_def dropna_def cell_eq_def numeral_eq_Suc)

lemma separate_degenerate_TPU:
  "separate_class degenerate_table ''hardware_type'' (Str ''TPU'') ''accuracy'' =
     Inr (map Num spread_scores)"
  by (simp add: degenerate_table_def constant_scores_def spread_scores_def separate_class_def
      getitem_def select_rows_def dropna_def cell_eq_def numeral_eq_Suc)

lemma gpu_scores_stats:
  "gpu_scores \<noteq> []" "length gpu_scores = 10"
  "sample_mean gpu_scores = 0" "sample_var gpu_scores = 4"
  by (simp_all add: gpu_scores_def sample_var_def sample_mean_def)

lemma tpu_scores_stats:
  "tpu_scores \<noteq> []" "length tpu_scores = 10"
  "sample_mean tpu_scores = 10" "sample_var tpu_scores = 4"
  by (simp_all add: tpu_scores_def sample_var_def sample_mean_def)

lemma constant_scores_stats:
  "constant_scores \<noteq> []" "length constant_scores = 10" "sample_mean constant_scores = 5"
  "sample_var constant_scores = 0"
  by (simp_all add: constant_scores_def sample_var_def sample_mean_def)

lemma spread_scores_stats:
  "spread_scores \<noteq> []" "length spread_scores = 10"
  "sample_mean spread_scores = 10" "sample_var spread_scores = 8"
  by (simp_all add: spread_scores_def sample_var_def sample_mean_def)

lemma delta_scenario_bounds: "34785 / 10000 < 11 / sqrt 10 \<and> 11 / sqrt 10 < 34795 / 10000"
proof -
  have u: "sqrt 10 < 110000 / 34785"
    by (rule real_less_lsqrt) (simp_all add: power2_eq_square)
  have l: "110000 / 34795 < sqrt 10"
    by (rule real_less_rsqrt) (simp add: power2_eq_square)
  have p: "0 < sqrt 10" by simp
  from u p have "34785 / 10000 < 11 / sqrt 10"
    by (simp add: field_simps)
  moreover from l p have "11 / sqrt 10 < 34795 / 10000"
    by (simp add: field_simps)
  ultimately show ?thesis by simp
qed

text \<open>
  C3 (as stated: on Group A = [10, 12, 14, 16, 18] and Group B = [5, 25, 45] the estimator
  gives \<open>kappa = 40\<close> and \<open>delta = (14 - 25) / sqrt 10\<close>, and with \<open>rho = 0\<close> the
  calculator returns \<open>41\<close>). The variance ratio is \<open>40\<close>, but line 78 takes the absolute
  value, so that \<open>delta\<close> is \<open>11 / sqrt 10\<close>, and the calculator returns \<open>41 / 41 = 1\<close>.
\<close>

theorem scenario_counterexample:
  "signal_separation [10, 12, 14, 16, 18] [5, 25, 45] = Fin (11 / sqrt 10)
   \<and> Fin (11 / sqrt 10) \<noteq> Fin ((14 - 25) / sqrt 10)
   \<and> calculate_sef (variance_ratio [10, 12, 14, 16, 18] [5, 25, 45]) (Fin 0) = Fin 1
   \<and> Fin 1 \<noteq> Fin 41"
  by (simp add: signal_separation_def variance_ratio_def series_mean_def series_var_def
      sample_mean_def sample_var_def np_sub_def calculate_sef_Fin)

text \<open>
  C3 (amended). On Group A = [10, 12, 14, 16, 18] (mean 14, variance 10) and
  Group B = [5, 25, 45] (mean 25, variance 400) the formulas of the estimator give
  \<open>kappa = 40\<close> and \<open>delta = |14 - 25| / sqrt 10 = 11 / sqrt 10\<close>, which rounds to
  \<open>+3.479\<close>, and with \<open>rho = 0\<close> the calculator returns \<open>1\<close>;
  \<^verbatim>\<open>validate_sef_framework\<close> itself returns \<^verbatim>\<open>None\<close> on a table that holds
  these two groups, each having fewer than 10 samples.
\<close>

theorem scenario_values:
  "series_mean [10, 12, 14, 16, 18] = Fin 14
   \<and> series_var [10, 12, 14, 16, 18] = Fin 10
   \<and> series_mean [5, 25, 45] = Fin 25
   \<and> series_var [5, 25, 45] = Fin 400
   \<and> variance_ratio [10, 12, 14, 16, 18] [5, 25, 45] = Fin 40
   \<and> signal_separation [10, 12, 14, 16, 18] [5, 25, 45] = Fin (11 / sqrt 10)
   \<and> 34785 / 10000 < 11 / sqrt 10 \<and> 11 / sqrt 10 < 34795 / 10000
   \<and> calculate_sef (variance_ratio [10, 12, 14, 16, 18] [5, 25, 45]) (Fin 0) = Fin 1
   \<and> validate_sef_framework sh ks scenario_table ''group'' (Str ''A'') (Str ''B'') ''value''
       = Inr None"
proof -
  have "series_mean [10, 12, 14, 16, 18] = Fin 14"
    and "series_mean [5, 25, 45] = Fin 25"
    by (simp_all add: series_mean_def sample_mean_def)
  moreover have "series_var [10, 12, 14, 16, 18] = Fin 10"
    and "series_var [5, 25, 45] = Fin 400"
    by (simp_all add: series_var_def sample_var_def sample_mean_def)
  moreover have k: "variance_ratio [10, 12, 14, 16, 18] [5, 25, 45] = Fin 40"
    by (simp add: variance_ratio_def series_var_def sample_var_def sample_mean_def)
  moreover have "signal_separation [10, 12, 14, 16, 18] [5, 25, 45] = Fin (11 / sqrt 10)"
    by (simp add: signal_separation_def series_mean_def series_var_def sample_mean_def
        sample_var_def np_sub_def)
  moreover have "calculate_sef (variance_ratio [10, 12, 14, 16, 18] [5, 25, 45]) (Fin 0) = Fin 1"
    by (simp add: k calculate_sef_Fin)
  moreover have "validate_sef_framework sh ks scenario_table ''group'' (Str ''A'') (Str ''B'')
      ''value'' = Inr None"
    by (simp add: validate_numeric [OF separate_scenario_A separate_scenario_B])
  ultimately show ?thesis
    using delta_scenario_bounds by simp
qed

text \<open>
  C4 (as stated: \<open>delta\<close> is the signed quantity \<open>(mean_A - mean_B) / sqrt var_A\<close>,
  negative whenever \<open>mean_A < mean_B\<close>). For the ten GPU scores (mean 0, variance 4) and the
  ten TPU scores (mean 10) the estimator gives \<open>delta = 5\<close>, not \<open>(0 - 10) / sqrt 4 = -5\<close>.
\<close>

theorem signal_separation_signed_counterexample:
  "signal_separation gpu_scores tpu_scores = Fin 5
   \<and> sample_mean gpu_scores < sample_mean tpu_scores
   \<and> Fin 5 \<noteq> Fin ((sample_mean gpu_scores - sample_mean tpu_scores)
        / sqrt (sample_var gpu_scores))"
  by (simp add: signal_separation_def series_mean_def series_var_def np_sub_def
      gpu_scores_stats tpu_scores_stats)

text \<open>
  C4 (amended). For every pair of numeric sequences with at least 2 observations each and
  \<open>var_A > 0\<close>, the estimator's \<open>delta\<close> is the absolute quantity
  \<open>|mean_A - mean_B| / sqrt var_A\<close>, which is never negative;
  \<^verbatim>\<open>validate_sef_framework\<close> reports this \<open>delta\<close> when both classes have at least
  10 observations and returns \<^verbatim>\<open>None\<close> otherwise.
\<close>

theorem signal_separation_absolute:
  assumes "separate_class df class_col va m = Inr (map Num a)"
    and "separate_class df class_col vb m = Inr (map Num b)"
    and "2 \<le> length a" and "2 \<le> length b" and "0 < sample_var a"
  shows "signal_separation a b = Fin (\<bar>sample_mean a - sample_mean b\<bar> / sqrt (sample_var a))
    \<and> 0 \<le> \<bar>sample_mean a - sample_mean b\<bar> / sqrt (sample_var a)
    \<and> r_delta (sef_analysis sh ks a b) = signal_separation a b
    \<and> validate_sef_framework sh ks df class_col va vb m =
        (if length a < 10 \<or> length b < 10 then Inr None
         else Inr (Some (sef_analysis sh ks a b)))"
proof -
  have "b \<noteq> []" using assms(4) by auto
  then have "signal_separation a b =
      Fin (\<bar>sample_mean a - sample_mean b\<bar> / sqrt (sample_var a))"
    using assms(3,5) by (rule_tac signal_separation_Fin)
  moreover have "0 \<le> \<bar>sample_mean a - sample_mean b\<bar> / sqrt (sample_var a)"
    using assms(5) by simp
  ultimately show ?thesis
    using validate_numeric [OF assms(1,2)] r_delta_analysis by simp
qed

theorem signal_separation_absolute_witness:
  "signal_separation gpu_scores tpu_scores = Fin 5
   \<and> validate_sef_framework (\<lambda>xs. Fin 1) (\<lambda>xs. Fin 1) separated_table
        ''hardware_type'' (Str ''GPU'') (Str ''TPU'') ''accuracy''
      = Inr (Some (sef_analysis (\<lambda>xs. Fin 1) (\<lambda>xs. Fin 1) gpu_scores tpu_scores))"
  using signal_separation_absolute [OF separate_separated_GPU separate_separated_TPU,
      where sh = "\<lambda>xs. Fin 1" and ks = "\<lambda>xs. Fin 1"]
  by (simp add: gpu_scores_stats tpu_scores_stats)

text \<open>
  C6 (as stated: fewer than 2 valid observations in a group fails with
  InsufficientSampleError and \<open>var_A = 0\<close> fails with DegenerateVarianceError, rather than
  producing a numeric result). With a constant class A of ten observations (variance
  \<open>0\<close>) the function fails with nothing and returns a result, whatever p-values the
  normality tests give: \<open>kappa\<close> and \<open>delta\<close> are \<open>+infinity\<close>, and the SEF and the
  improvement are NaN.
\<close>

theorem degenerate_variance_counterexample:
  "\<forall>shapiro_p kstest_p.
     validate_sef_framework shapiro_p kstest_p degenerate_table
        ''hardware_type'' (Str ''GPU'') (Str ''TPU'') ''accuracy''
       = Inr (Some (sef_analysis shapiro_p kstest_p constant_scores spread_scores))
     \<and> r_kappa (sef_analysis shapiro_p kstest_p constant_scores spread_scores) = PInf
     \<and> r_delta (sef_analysis shapiro_p kstest_p constant_scores spread_scores) = PInf
     \<and> r_sef (sef_analysis shapiro_p kstest_p constant_scores spread_scores) = NaN
     \<and> r_improvement_percent (sef_analysis shapiro_p kstest_p constant_scores spread_scores)
         = NaN"
proof (intro allI conjI)
  fix shapiro_p kstest_p :: "real list \<Rightarrow> npfloat"
  let ?r = "sef_analysis shapiro_p kstest_p constant_scores spread_scores"
  show "validate_sef_framework shapiro_p kstest_p degenerate_table
        ''hardware_type'' (Str ''GPU'') (Str ''TPU'') ''accuracy'' = Inr (Some ?r)"
    by (simp add: validate_numeric [OF separate_degenerate_GPU separate_degenerate_TPU]
        constant_scores_stats spread_scores_stats)
  have k: "variance_ratio constant_scores spread_scores = PInf"
    by (simp add: variance_ratio_def series_var_def constant_scores_stats spread_scores_stats)
  show "r_kappa ?r = PInf"
    by (simp add: r_kappa_analysis k)
  show "r_delta ?r = PInf"
    by (simp add: r_delta_analysis signal_separation_def series_mean_def series_var_def
        np_sub_def constant_scores_stats spread_scores_stats)
  have s: "calculate_sef PInf (Fin (2 / 10)) = NaN"
    by (rule calculate_sef_PInf) simp
  show "r_sef ?r = NaN"
    by (simp only: r_sef_analysis k s)
  show "r_improvement_percent ?r = NaN"
    using s by (simp add: sef_analysis_def Let_def k np_sub_def)
qed

text \<open>
  C6 (amended). Whenever one of the two classes has fewer than 10 valid observations (so in
  particular fewer than 2), \<^verbatim>\<open>validate_sef_framework\<close> returns \<^verbatim>\<open>None\<close> and no
  numeric result. When both classes have at least 10 numeric observations and
  \<open>var_A = 0\<close>, it does not fail: it returns a result whose \<open>kappa = var_B / var_A\<close> is
  \<open>+infinity\<close> when \<open>var_B > 0\<close> and NaN when \<open>var_B = 0\<close>, and whose SEF is NaN.
\<close>

theorem insufficient_sample_and_degenerate_variance:
  assumes "separate_class df class_col va m = Inr ca"
    and "separate_class df class_col vb m = Inr cb"
  shows "(length ca < 10 \<or> length cb < 10 \<longrightarrow>
            validate_sef_framework sh ks df class_col va vb m = Inr None)
      \<and> (10 \<le> length a \<and> 10 \<le> length b \<and> ca = map Num a \<and> cb = map Num b
           \<and> sample_var a = 0 \<longrightarrow>
            validate_sef_framework sh ks df class_col va vb m
              = Inr (Some (sef_analysis sh ks a b))
          \<and> r_kappa (sef_analysis sh ks a b) = (if 0 < sample_var b then PInf else NaN)
          \<and> r_sef (sef_analysis sh ks a b) = NaN)"
proof (intro conjI impI)
  assume "length ca < 10 \<or> length cb < 10"
  then show "validate_sef_framework sh ks df class_col va vb m = Inr None"
    using assms by (simp add: validate_sef_framework_def)
next
  assume h: "10 \<le> length a \<and> 10 \<le> length b \<and> ca = map Num a \<and> cb = map Num b
    \<and> sample_var a = 0"
  then show "validate_sef_framework sh ks df class_col va vb m
      = Inr (Some (sef_analysis sh ks a b))"
    using assms by (simp add: validate_numeric)
  from h have l: "2 \<le> length a" "2 \<le> length b" by simp_all
  from h show k: "r_kappa (sef_analysis sh ks a b) = (if 0 < sample_var b then PInf else NaN)"
    by (simp only: r_kappa_analysis variance_ratio_zero [OF l])
  show "r_sef (sef_analysis sh ks a b) = NaN"
    using k
    by (simp add: r_sef_analysis r_kappa_analysis calculate_sef_PInf calculate_sef_NaN
        split: if_splits)
qed

theorem insufficient_sample_and_degenerate_variance_witness:
  "\<forall>shapiro_p kstest_p.
     validate_sef_framework shapiro_p kstest_p scenario_table
        ''group'' (Str ''A'') (Str ''B'') ''value'' = Inr None
     \<and> validate_sef_framework shapiro_p kstest_p degenerate_table
        ''hardware_type'' (Str ''GPU'') (Str ''TPU'') ''accuracy''
       = Inr (Some (sef_analysis shapiro_p kstest_p constant_scores spread_scores))
     \<and> r_kappa (sef_analysis shapiro_p kstest_p constant_scores spread_scores) = PInf
     \<and> r_sef (sef_analysis shapiro_p kstest_p constant_scores spread_scores) = NaN"
proof (intro allI)
  fix shapiro_p kstest_p :: "real list \<Rightarrow> npfloat"
  show "validate_sef_framework shapiro_p kstest_p scenario_table
        ''group'' (Str ''A'') (Str ''B'') ''value'' = Inr None
     \<and> validate_sef_framework shapiro_p kstest_p degenerate_table
        ''hardware_type'' (Str ''GPU'') (Str ''TPU'') ''accuracy''
       = Inr (Some (sef_analysis shapiro_p kstest_p constant_scores spread_scores))
     \<and> r_kappa (sef_analysis shapiro_p kstest_p constant_scores spread_scores) = PInf
     \<and> r_sef (sef_analysis shapiro_p kstest_p constant_scores spread_scores) = NaN"
    using insufficient_sample_and_degenerate_variance
        [OF separate_scenario_A separate_scenario_B,
         where sh = shapiro_p and ks = kstest_p]
      insufficient_sample_and_degenerate_variance
        [OF separate_degenerate_GPU separate_degenerate_TPU,
         where a = constant_scores and b = spread_scores
           and sh = shapiro_p and ks = kstest_p]
    by (simp add: constant_scores_stats spread_scores_stats)
qed

section \<open>Properties of the group partitioner\<close>

text \<open>
  C7. For every input table whose grouping column does not exist,
  \<^verbatim>\<open>validate_sef_framework\<close> fails at the separation of the classes with the
  \<^verbatim>\<open>KeyError\<close> of that column (the MissingColumnError of the specification), and
  with no other error.
\<close>

theorem missing_grouping_column:
  assumes "df class_a_col = None"
  shows "validate_sef_framework sh ks df class_a_col class_a_value class_b_value
      measurement_col = Inl (KeyError class_a_col)"
  using assms by (simp add: validate_sef_framework_def separate_class_def getitem_def)

theorem missing_grouping_column_witness:
  "validate_sef_framework (\<lambda>xs. Fin 1) (\<lambda>xs. Fin 1) scenario_table
      ''hardware_type'' (Str ''GPU'') (Str ''TPU'') ''value'' = Inl (KeyError ''hardware_type'')"
  using missing_grouping_column [of scenario_table "''hardware_type''"]
  by (simp add: scenario_table_def)

section \<open>Properties of the normality checker\<close>

text \<open>
  C8. For every numeric sequence of length \<open>n\<close>, the returned dict has the Shapiro-Wilk
  entry exactly when \<open>3 \<le> n \<le> 5000\<close> and the D'Agostino and Jarque-Bera entries exactly
  when \<open>n \<ge> 8\<close>; an entry holds the statistic and the p-value of its test, a test whose
  precondition is unmet leaves no entry and raises nothing, and the dict has no other
  entries.
\<close>

theorem test_normality_entries:
  "test_normality shapiro normaltest jarque_bera data Shapiro_Wilk =
     (if 3 \<le> length data \<and> length data \<le> 5000
      then Some \<lparr>statistic = fst (shapiro data), p_value = snd (shapiro data)\<rparr> else None)
   \<and> test_normality shapiro normaltest jarque_bera data DAgostino_K2 =
     (if 8 \<le> length data
      then Some \<lparr>statistic = fst (normaltest data), p_value = snd (normaltest data)\<rparr>
      else None)
   \<and> test_normality shapiro normaltest jarque_bera data Jarque_Bera =
     (if 8 \<le> length data
      then Some \<lparr>statistic = fst (jarque_bera data), p_value = snd (jarque_bera data)\<rparr>
      else None)
   \<and> dom (test_normality shapiro normaltest jarque_bera data) =
     (if 3 \<le> length data \<and> length data \<le> 5000 then {Shapiro_Wilk} else {})
     \<union> (if 8 \<le> length data then {DAgostino_K2, Jarque_Bera} else {})"
proof -
  let ?r = "test_normality shapiro normaltest jarque_bera data"
  have sw: "?r Shapiro_Wilk =
     (if 3 \<le> length data \<and> length data \<le> 5000
      then Some \<lparr>statistic = fst (shapiro data), p_value = snd (shapiro data)\<rparr> else None)"
    by (simp add: test_normality_def Let_def)
  have da: "?r DAgostino_K2 =
     (if 8 \<le> length data
      then Some \<lparr>statistic = fst (normaltest data), p_value = snd (normaltest data)\<rparr>
      else None)"
    by (simp add: test_normality_def Let_def)
  have jb: "?r Jarque_Bera =
     (if 8 \<le> length data
      then Some \<lparr>statistic = fst (jarque_bera data), p_value = snd (jarque_bera data)\<rparr>
      else None)"
    by (simp add: test_normality_def Let_def)
  have "dom ?r =
     (if 3 \<le> length data \<and> length data \<le> 5000 then {Shapiro_Wilk} else {})
     \<union> (if 8 \<le> length data then {DAgostino_K2, Jarque_Bera} else {})"
  proof (rule set_eqI)
    fix t
    show "t \<in> dom ?r \<longleftrightarrow>
      t \<in> (if 3 \<le> length data \<and> length data \<le> 5000 then {Shapiro_Wilk} else {})
        \<union> (if 8 \<le> length data then {DAgostino_K2, Jarque_Bera} else {})"
      using sw da jb by (cases t) (auto simp add: dom_def)
  qed
  with sw da jb show ?thesis by simp
qed

section \<open>Properties of the SNR formulation\<close>

lemma two_powr_int: "(2::real) powr of_int k = 2 powi k"
  by (simp add: powr_real_of_int')

lemma binade_eq:
  assumes "2 powi e \<le> \<bar>x\<bar>" and "\<bar>x\<bar> < 2 powi (e + 1)" and "- 1022 \<le> e"
  shows "binade x = e"
proof -
  have "0 < (2::real) powi e" by simp
  then have pos: "0 < \<bar>x\<bar>" using assms(1) by linarith
  have "2 powr of_int e \<le> \<bar>x\<bar> \<and> \<bar>x\<bar> < 2 powr of_int (e + 1)"
    using assms(1,2) by (simp only: two_powr_int)
  then have "2 powr of_int e \<le> \<bar>x\<bar> \<and> \<bar>x\<bar> < 2 powr (of_int e + 1)"
    by simp
  then have "\<lfloor>log 2 \<bar>x\<bar>\<rfloor> = e"
    using pos floor_log_eq_powr_iff [of "\<bar>x\<bar>" 2 e] by simp
  then show ?thesis using assms(3) by (simp add: binade_def)
qed

lemma binade_subnormal:
  assumes "x \<noteq> 0" and "\<bar>x\<bar> < 2 powi (- 1022)"
  shows "binade x = - 1022"
proof -
  have pos: "0 < \<bar>x\<bar>" using assms(1) by simp
  have "\<bar>x\<bar> < 2 powr of_int (- 1022)"
    using assms(2) by (simp only: two_powr_int)
  then have "log 2 \<bar>x\<bar> < log 2 (2 powr of_int (- 1022))"
    using pos by (simp only: log_less_cancel_iff)
  then have "log 2 \<bar>x\<bar> < - 1022"
    by simp
  then have "\<lfloor>log 2 \<bar>x\<bar>\<rfloor> < - 1022" by linarith
  then show ?thesis by (simp add: binade_def)
qed

lemma fl_eval:
  assumes "2 powi e \<le> \<bar>x\<bar>" and "\<bar>x\<bar> < 2 powi (e + 1)" and "- 1022 \<le> e"
    and "round_half_even (x / 2 powi (e - 52)) = n"
    and "\<bar>of_int n * 2 powi (e - 52)\<bar> < (2::real) ^ 1024"
  shows "fl x = Fin (of_int n * 2 powi (e - 52))"
proof -
  have "0 < (2::real) powi e" by simp
  then have "0 < \<bar>x\<bar>" using assms(1) by linarith
  then have "x \<noteq> 0" by simp
  moreover have "ulp x = 2 powi (e - 52)"
    by (simp add: ulp_def binade_eq [OF assms(1,2,3)])
  ultimately show ?thesis
    using assms(4,5) by (simp add: fl_def Let_def)
qed

text \<open>Small integers are representable; a tie goes to the even significand.\<close>

lemma fl_small_integers:
  "fl 1 = Fin 1" "fl 2 = Fin 2" "fl 3 = Fin 3" "fl 4 = Fin 4" "fl 5 = Fin 5" "fl 9 = Fin 9"
  using fl_eval [of 0 1 "2 ^ 52"] fl_eval [of 1 2 "2 ^ 52"] fl_eval [of 1 3 "3 * 2 ^ 51"]
    fl_eval [of 2 4 "2 ^ 52"] fl_eval [of 2 5 "5 * 2 ^ 50"] fl_eval [of 3 9 "9 * 2 ^ 49"]
  by (simp_all add: round_half_even_def)

lemma fl_tie_to_even: "fl (1 + 1 / 2 ^ 53) = Fin 1"
  using fl_eval [of 0 "1 + 1 / 2 ^ 53" "2 ^ 52"] by (simp add: round_half_even_def)

lemma fl_overflow: "fl (2 ^ 1024) = PInf"
proof -
  have "binade (2 ^ 1024) = 1024"
    by (rule binade_eq) simp_all
  then show ?thesis
    by (simp add: fl_def ulp_def round_half_even_def)
qed

lemma fl_underflow: "fl (1 / 2 ^ 1200) = Fin 0"
proof -
  have "binade (1 / 2 ^ 1200) = - 1022"
    by (rule binade_subnormal) (simp_all add: power_int_minus field_simps)
  then show ?thesis
    by (simp add: fl_def ulp_def round_half_even_def power_int_minus field_simps)
qed

text \<open>The three quotients of the example: \<open>9 / 5\<close>, \<open>5 / 3\<close> and \<open>3 / fl (9 / 5)\<close>.\<close>

lemma fl_nine_fifths: "fl (9 / 5) = Fin (8106479329266893 / 2 ^ 52)"
  using fl_eval [of 0 "9 / 5" 8106479329266893] by (simp add: round_half_even_def)

lemma fl_five_thirds: "fl (5 / 3) = Fin (7505999378950827 / 2 ^ 52)"
  using fl_eval [of 0 "5 / 3" 7505999378950827] by (simp add: round_half_even_def)

lemma fl_snr_quotient:
  "fl (3 / (8106479329266893 / 2 ^ 52)) = Fin (7505999378950826 / 2 ^ 52)"
  using fl_eval [of 0 "3 / (8106479329266893 / 2 ^ 52)" 7505999378950826]
  by (simp add: round_half_even_def)

text \<open>
  C10 (as stated: the SEF of \<^verbatim>\<open>calculate_sef_improvement\<close> equals the closed form of
  \<^verbatim>\<open>calculate_sef\<close>). The two are computed in float64 by different operations and
  round differently. For \<open>delta = 3\<close>, \<open>std_A = 1\<close>, \<open>std_B = 2\<close> (\<open>kappa = 4\<close>) and
  \<open>rho = 1/2\<close> the SNR formulation returns \<open>3 / fl (9 / 5) = 1.6666666666666665\<close> and the
  closed form returns \<open>fl (5 / 3) = 1.6666666666666667\<close>, one unit in the last place
  apart. For \<open>delta = 2 ^ -600\<close> the square of \<open>delta\<close> underflows to \<open>0\<close>, the test
  \<^verbatim>\<open>snr_independent > 0\<close> fails and the SNR formulation returns \<open>+infinity\<close>.
\<close>

theorem snr_ratio_float64_counterexample:
  "i_sef (calculate_sef_improvement_f64 example_params) = Fin (7505999378950826 / 2 ^ 52)
   \<and> calculate_sef_f64 (Fin 4) (Fin (1 / 2)) = Fin (7505999378950827 / 2 ^ 52)
   \<and> i_sef (calculate_sef_improvement_f64 example_params)
       \<noteq> calculate_sef_f64 (Fin 4) (Fin (1 / 2))
   \<and> i_sef (calculate_sef_improvement_f64 tiny_delta_params) = PInf"
proof -
  have a: "i_sef (calculate_sef_improvement_f64 example_params)
      = Fin (7505999378950826 / 2 ^ 52)"
    using fl_snr_quotient
    by (simp add: calculate_sef_improvement_f64_def example_params_def Let_def
        f64_add_def f64_sub_def f64_mul_def f64_div_def np_sub_def np_gt_def np_lt_def
        fl_small_integers fl_nine_fifths)
  have b: "calculate_sef_f64 (Fin 4) (Fin (1 / 2)) = Fin (7505999378950827 / 2 ^ 52)"
    by (simp add: calculate_sef_f64_def sef_denominator_f64_def f64_add_def f64_sub_def
        f64_mul_def f64_div_def f64_sqrt_def np_sub_def fl_small_integers fl_five_thirds)
  have c: "i_sef (calculate_sef_improvement_f64 tiny_delta_params) = PInf"
    using fl_underflow
    by (simp add: calculate_sef_improvement_f64_def tiny_delta_params_def example_params_def
        Let_def f64_add_def f64_sub_def f64_mul_def f64_div_def np_sub_def np_gt_def
        np_lt_def fl_small_integers fl_def [of 0] power_mult_distrib [symmetric]
        flip: power_add)
  have "i_sef (calculate_sef_improvement_f64 example_params)
      \<noteq> calculate_sef_f64 (Fin 4) (Fin (1 / 2))"
    by (simp only: a b) simp
  with a b c show ?thesis by simp
qed

text \<open>
  C10 (amended). For all \<open>delta \<noteq> 0\<close>, \<open>var_A > 0\<close>, \<open>var_B > 0\<close> and \<open>rho\<close> in
  \<open>[-1, 1]\<close> with \<open>1 + kappa - 2 * sqrt kappa * rho > 0\<close>, where
  \<open>kappa = var_B / var_A\<close>, the SEF that \<^verbatim>\<open>calculate_sef_improvement\<close> computes as
  the ratio of the two signal-to-noise ratios and the closed form that
  \<^verbatim>\<open>calculate_sef\<close> computes from \<open>kappa\<close> and \<open>rho\<close> are equal when every operation
  of the two functions is carried out in exact real arithmetic.
\<close>

theorem snr_ratio_is_closed_form:
  assumes "d \<noteq> 0" and "0 < var_A" and "0 < var_B" and "- 1 \<le> rho" and "rho \<le> 1"
    and "0 < 1 + var_B / var_A - 2 * sqrt (var_B / var_A) * rho"
    and "p_delta params = Fin d" and "p_rho params = Fin rho"
    and "p_mayo_std params = Fin (sqrt var_A)"
    and "p_cleveland_std params = Fin (sqrt var_B)"
  shows "i_sef (calculate_sef_improvement params)
    = calculate_sef (Fin (var_B / var_A)) (Fin rho)"
proof -
  let ?k = "var_B / var_A"
  let ?den = "1 + ?k - 2 * sqrt ?k * rho"
  let ?rv = "var_A + var_B - 2 * rho * sqrt var_A * sqrt var_B"
  have "var_A / sqrt var_A = sqrt var_A"
    using assms(2) by (simp add: real_div_sqrt)
  then have "sqrt var_B * (var_A / sqrt var_A) = sqrt var_B * sqrt var_A"
    by simp
  then have "sqrt ?k * var_A = sqrt var_B * sqrt var_A"
    by (simp add: real_sqrt_divide)
  then have rv: "?rv = var_A * ?den"
    using assms(2) by (simp add: algebra_simps)
  have rvpos: "0 < ?rv" using rv assms(2,6) by simp
  have d2: "0 < d * d" using assms(1) not_real_square_gt_zero [of d] by blast
  have s: "0 < var_A + var_B" using assms(2,3) by simp
  have snr: "0 < d * d / (var_A + var_B)" using d2 s by simp
  have lhs: "i_sef (calculate_sef_improvement params)
      = Fin ((d * d / ?rv) / (d * d / (var_A + var_B)))"
    using assms(1,2,3,7-10) rvpos snr s
    by (simp add: calculate_sef_improvement_def Let_def np_sub_def np_gt_def np_lt_def)
  have "(d * d / ?rv) / (d * d / (var_A + var_B)) = (var_A + var_B) / ?rv"
    using assms(1) by simp
  also have "\<dots> = (var_A * (1 + ?k)) / (var_A * ?den)"
    using rv assms(2) by (simp add: algebra_simps)
  also have "\<dots> = (1 + ?k) / ?den"
    using assms(2) by simp
  finally have e: "(d * d / ?rv) / (d * d / (var_A + var_B)) = (1 + ?k) / ?den" .
  have "0 \<le> ?k" using assms(2,3) by simp
  then have "calculate_sef (Fin ?k) (Fin rho) = Fin ((1 + ?k) / ?den)"
    using assms(6) by (simp add: calculate_sef_Fin)
  with lhs e show ?thesis by simp
qed

theorem snr_ratio_is_closed_form_witness:
  "i_sef (calculate_sef_improvement example_params) = calculate_sef (Fin 4) (Fin (1 / 2))
   \<and> calculate_sef (Fin 4) (Fin (1 / 2)) = Fin (5 / 3)"
  using snr_ratio_is_closed_form [of 3 1 4 "1 / 2" example_params]
  by (simp add: example_params_def calculate_sef_Fin)

end
